(* ===== verification/Prelude.thy ===== *)
theory Prelude
  imports Main
begin

text \<open>
  Shared vocabulary of the flask-discord development. The modelled Python code raises
  and catches exceptions; each of them is a constructor of \<open>py_error\<close>, and every
  computation that may raise returns a value of \<open>'a py_result = py_error + 'a\<close>
  (\<open>Inl\<close> the exception). \<open>res_bind\<close> sequences two such computations the way
  Python statements are sequenced: the first exception ends the block. \<open>py_map\<close> is
  the list comprehension \<open>[f(x) for x in xs]\<close>, evaluated left to right, and
  \<open>py_except_attribute\<close> is the \<open>try: ... except AttributeError: pass\<close> block.
  The lemmas here are shared by every component; the evaluation rules are collected in
  \<open>py_simps\<close>.
\<close>

named_theorems py_simps "evaluation rules of the Python runtime model"

section \<open>Exceptions and results\<close>

text \<open>Failures of the authenticated request primitive (flask_discord.exceptions).\<close>

datatype api_error = Unauthorized | RateLimited | HttpException

datatype py_error =
    KeyError string
  | TypeError
  | AttributeError
  | RequestError api_error

type_synonym 'a py_result = "py_error + 'a"

definition res_bind :: "'a py_result \<Rightarrow> ('a \<Rightarrow> 'b py_result) \<Rightarrow> 'b py_result" where
  "res_bind r f = (case r of Inl e \<Rightarrow> Inl e | Inr x \<Rightarrow> f x)"

section \<open>The list comprehension\<close>

fun py_map :: "('a \<Rightarrow> 'b py_result) \<Rightarrow> 'a list \<Rightarrow> 'b list py_result" where
  "py_map f [] = Inr []"
| "py_map f (x # xs) = res_bind (f x) (\<lambda>y. res_bind (py_map f xs) (\<lambda>ys. Inr (y # ys)))"

section \<open>try / except AttributeError\<close>

definition py_except_attribute :: "'s py_result \<Rightarrow> 's \<Rightarrow> 's py_result" where
  "py_except_attribute r s = (case r of Inl AttributeError \<Rightarrow> Inr s | _ \<Rightarrow> r)"

section \<open>Lemmas\<close>

lemma res_bind_Inl [simp, py_simps]: "res_bind (Inl e) f = Inl e"
  by (simp add: res_bind_def)

lemma res_bind_Inr [simp, py_simps]: "res_bind (Inr x) f = f x"
  by (simp add: res_bind_def)

lemma res_bind_eq_Inr: "res_bind r f = Inr y \<longleftrightarrow> (\<exists>x. r = Inr x \<and> f x = Inr y)"
  by (cases r) auto

lemma res_bind_eq_Inl:
  "res_bind r f = Inl e \<longleftrightarrow> r = Inl e \<or> (\<exists>x. r = Inr x \<and> f x = Inl e)"
  by (cases r) auto

lemma res_bind_Inr_right [simp]: "res_bind r Inr = r"
  by (cases r) auto

lemma py_except_attribute_AttributeError [simp, py_simps]:
  "py_except_attribute (Inl AttributeError) s = Inr s"
  by (simp add: py_except_attribute_def)

lemma py_except_attribute_Inr [simp, py_simps]:
  "py_except_attribute (Inr s') s = Inr s'"
  by (simp add: py_except_attribute_def)

lemma py_map_Inr_iff:
  "py_map f xs = Inr ys \<longleftrightarrow> list_all2 (\<lambda>x y. f x = Inr y) xs ys"
proof (induction xs arbitrary: ys)
  case Nil
  then show ?case by auto
next
  case (Cons x xs)
  then show ?case
    by (cases ys) (auto simp: res_bind_eq_Inr)
qed

lemma py_map_length: "py_map f xs = Inr ys \<Longrightarrow> length ys = length xs"
  by (simp add: py_map_Inr_iff list_all2_lengthD)

lemma py_map_append:
  "py_map f (xs @ ys) = res_bind (py_map f xs) (\<lambda>as. res_bind (py_map f ys) (\<lambda>bs. Inr (as @ bs)))"
proof (induction xs)
  case Nil
  then show ?case by (cases "py_map f ys") auto
next
  case (Cons x xs)
  then show ?case
    by (cases "f x"; cases "py_map f xs"; cases "py_map f ys") auto
qed

lemma py_map_isr:
  "(\<And>x. x \<in> set xs \<Longrightarrow> \<not> isl (f x)) \<Longrightarrow> \<exists>ys. py_map f xs = Inr ys"
proof (induction xs)
  case Nil
  then show ?case by simp
next
  case (Cons x xs)
  have "\<not> isl (f x)" using Cons.prems by simp
  then obtain y where "f x = Inr y" by (cases "f x") auto
  moreover obtain ys where "py_map f xs = Inr ys" using Cons by auto
  ultimately show ?case by simp
qed

lemma py_map_Inl_elem: "py_map f xs = Inl e \<Longrightarrow> \<exists>x\<in>set xs. f x = Inl e"
proof (induction xs)
  case (Cons x xs)
  then show ?case by (cases "f x"; cases "py_map f xs") auto
qed simp

end
