(* ===== verification/Py_Json.thy ===== *)
theory Py_Json
  imports Prelude
begin

text \<open>
  The values the modelled code handles: JSON documents as \<open>json.loads\<close> returns them
  (None, bool, int, str, list, dict), and the Python built-ins the code applies to them:
  subscription \<open>d[k]\<close> (\<open>py_getitem\<close>), \<open>d.get(k, default)\<close> (\<open>py_get\<close>),
  iteration \<open>for x in v\<close> (\<open>py_iter\<close>) and truth value \<open>bool(v)\<close>
  (\<open>py_bool\<close>). A dict is an association list; its keys are unique in a parsed payload,
  so \<open>map_of\<close> is dict lookup. Every built-in raises what CPython raises when it is
  applied to a value of the wrong type: subscription of a non-dict by a string raises
  TypeError, \<open>.get\<close> on a non-dict raises AttributeError, iterating None, a bool or an
  int raises TypeError, iterating a dict yields its keys and a string its characters.
\<close>

datatype json =
    JNull
  | JBool bool
  | JInt int
  | JStr string
  | JList "json list"
  | JObj "(string \<times> json) list"

definition dict_get :: "(string \<times> json) list \<Rightarrow> string \<Rightarrow> json \<Rightarrow> json" where
  "dict_get d k dflt = (case map_of d k of Some v \<Rightarrow> v | None \<Rightarrow> dflt)"

definition py_getitem :: "json \<Rightarrow> string \<Rightarrow> json py_result" where
  "py_getitem p k =
     (case p of
        JObj d \<Rightarrow> (case map_of d k of Some v \<Rightarrow> Inr v | None \<Rightarrow> Inl (KeyError k))
      | _ \<Rightarrow> Inl TypeError)"

definition py_get :: "json \<Rightarrow> string \<Rightarrow> json \<Rightarrow> json py_result" where
  "py_get p k dflt = (case p of JObj d \<Rightarrow> Inr (dict_get d k dflt) | _ \<Rightarrow> Inl AttributeError)"

fun py_iter :: "json \<Rightarrow> json list py_result" where
  "py_iter (JList xs) = Inr xs"
| "py_iter (JObj d) = Inr (map (\<lambda>kv. JStr (fst kv)) d)"
| "py_iter (JStr s) = Inr (map (\<lambda>c. JStr [c]) s)"
| "py_iter JNull = Inl TypeError"
| "py_iter (JBool b) = Inl TypeError"
| "py_iter (JInt n) = Inl TypeError"

fun py_bool :: "json \<Rightarrow> bool" where
  "py_bool JNull = False"
| "py_bool (JBool b) = b"
| "py_bool (JInt n) = (n \<noteq> 0)"
| "py_bool (JStr s) = (s \<noteq> [])"
| "py_bool (JList xs) = (xs \<noteq> [])"
| "py_bool (JObj d) = (d \<noteq> [])"

fun is_dict :: "json \<Rightarrow> bool" where
  "is_dict (JObj d) = True"
| "is_dict _ = False"

fun dict_items :: "json \<Rightarrow> (string \<times> json) list" where
  "dict_items (JObj d) = d"
| "dict_items _ = []"

section \<open>Evaluation rules\<close>

lemma py_get_JObj [simp, py_simps]: "py_get (JObj d) k dflt = Inr (dict_get d k dflt)"
  by (simp add: py_get_def)

lemma py_get_not_dict [simp, py_simps]: "\<not> is_dict p \<Longrightarrow> py_get p k dflt = Inl AttributeError"
  by (cases p) (auto simp: py_get_def)

lemma py_getitem_not_dict [simp, py_simps]: "\<not> is_dict p \<Longrightarrow> py_getitem p k = Inl TypeError"
  by (cases p) (auto simp: py_getitem_def)

lemma py_getitem_JObj_Some [simp, py_simps]:
  "map_of d k = Some v \<Longrightarrow> py_getitem (JObj d) k = Inr v"
  by (simp add: py_getitem_def)

lemma py_getitem_JObj_None [simp, py_simps]:
  "map_of d k = None \<Longrightarrow> py_getitem (JObj d) k = Inl (KeyError k)"
  by (simp add: py_getitem_def)

lemma dict_get_Some [simp, py_simps]: "map_of d k = Some v \<Longrightarrow> dict_get d k dflt = v"
  by (simp add: dict_get_def)

lemma dict_get_None [simp, py_simps]: "map_of d k = None \<Longrightarrow> dict_get d k dflt = dflt"
  by (simp add: dict_get_def)

lemma py_iter_eq_Inl: "py_iter v = Inl e \<longleftrightarrow> e = TypeError \<and> (v = JNull \<or> (\<exists>b. v = JBool b) \<or> (\<exists>n. v = JInt n))"
  by (cases v) auto

end
