(* ===== verification/Integration.thy ===== *)
theory Integration
  imports Py_Json
begin

text \<open>
  The nested model \<open>flask_discord.models.integration.Integration\<close>. Its source is
  not part of the verified sources; the spec says it follows the pattern of every model:
  it wraps its payload mapping and reads its attributes with \<open>payload.get(...)\<close>,
  never failing on an absent key. The model keeps the payload (every attribute is a
  function of it); constructing it from a value that is not a dict fails where the first
  \<open>.get\<close> is called, with AttributeError.
\<close>

record integration =
  integration_payload :: "(string \<times> json) list"

definition Integration_init :: "json \<Rightarrow> integration py_result" where
  "Integration_init p = (case p of JObj d \<Rightarrow> Inr \<lparr>integration_payload = d\<rparr> | _ \<Rightarrow> Inl AttributeError)"

lemma Integration_init_JObj [simp, py_simps]:
  "Integration_init (JObj d) = Inr \<lparr>integration_payload = d\<rparr>"
  by (simp add: Integration_init_def)

lemma Integration_init_not_dict [simp, py_simps]:
  "\<not> is_dict p \<Longrightarrow> Integration_init p = Inl AttributeError"
  by (cases p) (auto simp: Integration_init_def)

lemma Integration_init_eq_Inr:
  "Integration_init p = Inr i \<longleftrightarrow> p = JObj (integration_payload i)"
  by (cases p) (auto simp: Integration_init_def)

end
