(* ===== verification/Models_Base.thy ===== *)
theory Models_Base
  imports Py_Json
begin

text \<open>
  The collaborators of the connection model, whose code is not among the verified
  sources and which are modelled from the spec: the session object
  \<open>current_app.discord\<close> (the logged-in user id, the process-wide users cache and the
  authenticated request primitive), the cached \<open>User\<close> objects with their mutable
  \<open>connections\<close> attribute, and the shared class method
  \<open>DiscordModelsBase.fetch_from_api\<close>. The session is polymorphic in the type
  \<open>'c\<close> of what a user's \<open>connections\<close> attribute holds; the connection model
  instantiates it. The upstream API is part of the state: \<open>api s route\<close> is the
  response a GET of \<open>route\<close> gets now, a JSON document or a request failure.
\<close>

text \<open>What a model's \<open>fetch_from_api\<close> returns: one instance, or a list when the
  class sets \<open>MANY\<close>.\<close>

datatype 'a fetched = One 'a | Many "'a list"

record 'c user =
  uid :: int
  connections :: "'c option"

record 'c discord_session =
  user_id :: "int option"
  users_cache :: "int \<rightharpoonup> 'c user"
  api :: "string \<Rightarrow> api_error + json"

definition discord_request :: "'c discord_session \<Rightarrow> string \<Rightarrow> json py_result" where
  "discord_request s route = (case api s route of Inl e \<Rightarrow> Inl (RequestError e) | Inr j \<Rightarrow> Inr j)"

definition DiscordModelsBase_fetch_from_api ::
  "(json \<Rightarrow> 'a py_result) \<Rightarrow> bool \<Rightarrow> string \<Rightarrow> 'c discord_session \<Rightarrow> 'a fetched py_result" where
  "DiscordModelsBase_fetch_from_api ctor many route s =
     res_bind (discord_request s route) (\<lambda>payload.
       if many then res_bind (py_iter payload) (\<lambda>ps. res_bind (py_map ctor ps) (\<lambda>xs. Inr (Many xs)))
       else res_bind (ctor payload) (\<lambda>x. Inr (One x)))"

section \<open>Evaluation rules\<close>

lemma discord_request_eq_Inr [simp]: "discord_request s route = Inr j \<longleftrightarrow> api s route = Inr j"
  by (auto simp: discord_request_def split: sum.splits)

lemma base_fetch_many_eq_Inr:
  "DiscordModelsBase_fetch_from_api ctor True route s = Inr r \<longleftrightarrow>
     (\<exists>j ps xs. api s route = Inr j \<and> py_iter j = Inr ps \<and>
        list_all2 (\<lambda>p x. ctor p = Inr x) ps xs \<and> r = Many xs)"
  by (auto simp: DiscordModelsBase_fetch_from_api_def res_bind_eq_Inr py_map_Inr_iff)

lemma base_fetch_request_error:
  "api s route = Inl e \<Longrightarrow>
     DiscordModelsBase_fetch_from_api ctor many route s = Inl (RequestError e)"
  by (simp add: DiscordModelsBase_fetch_from_api_def discord_request_def)

lemma base_fetch_api_cong:
  "api s route = api s' route \<Longrightarrow>
     DiscordModelsBase_fetch_from_api ctor many route s = DiscordModelsBase_fetch_from_api ctor many route s'"
  by (simp add: DiscordModelsBase_fetch_from_api_def discord_request_def)

end
