(* ===== verification/Connections.thy ===== *)
theory Connections
  imports Integration Models_Base
begin

text \<open>
  The model of \<open>src/flask_discord/models/connections.py\<close>, class \<open>UserConnection\<close>:
  the instance attributes as a record, the constructor \<open>__init__\<close> with the private
  helper \<open>__get_integrations\<close>, the property \<open>is_visible\<close>, and the class method
  \<open>fetch_from_api\<close> with its best-effort update of the cached user's
  \<open>connections\<close> attribute. Each statement of the constructor is one \<open>res_bind\<close>
  step, in the source's order, so the exception a payload raises is the one CPython
  raises first.
\<close>

section \<open>Attributes and class constants\<close>

record user_connection =
  conn_payload :: json
  conn_id :: json
  conn_name :: json
  conn_type :: json
  conn_revoked :: json
  conn_integrations :: "integration list"
  conn_verified :: json
  conn_friend_sync :: json
  conn_show_activity :: json
  conn_visibility :: json
  conn_two_way_link :: json

definition user_connection_MANY :: bool where
  "user_connection_MANY = True"

definition user_connection_ROUTE :: string where
  "user_connection_ROUTE = ''/users/@me/connections''"

type_synonym conn_session = "user_connection fetched discord_session"

section \<open>Construction\<close>

definition get_integrations :: "json \<Rightarrow> integration list py_result" where
  "get_integrations payload =
     res_bind (py_get payload ''integrations'' (JList [])) (\<lambda>v.
     res_bind (py_iter v) (py_map Integration_init))"

definition UserConnection_init :: "json \<Rightarrow> user_connection py_result" where
  "UserConnection_init payload =
     res_bind (py_getitem payload ''id'') (\<lambda>cid.
     res_bind (py_get payload ''name'' JNull) (\<lambda>cname.
     res_bind (py_get payload ''type'' JNull) (\<lambda>ctype.
     res_bind (py_get payload ''revoked'' JNull) (\<lambda>crevoked.
     res_bind (get_integrations payload) (\<lambda>cintegrations.
     res_bind (py_get payload ''verified'' JNull) (\<lambda>cverified.
     res_bind (py_get payload ''friend_sync'' JNull) (\<lambda>cfriend_sync.
     res_bind (py_get payload ''show_activity'' JNull) (\<lambda>cshow_activity.
     res_bind (py_get payload ''visibility'' JNull) (\<lambda>cvisibility.
     res_bind (py_get payload ''two_way_link'' JNull) (\<lambda>ctwo_way_link.
     Inr \<lparr>conn_payload = payload, conn_id = cid, conn_name = cname, conn_type = ctype,
          conn_revoked = crevoked, conn_integrations = cintegrations,
          conn_verified = cverified, conn_friend_sync = cfriend_sync,
          conn_show_activity = cshow_activity, conn_visibility = cvisibility,
          conn_two_way_link = ctwo_way_link\<rparr>))))))))))"

definition is_visible :: "user_connection \<Rightarrow> bool" where
  "is_visible c = py_bool (conn_visibility c)"

section \<open>Fetching and the users cache\<close>

text \<open>
  \<open>user = current_app.discord.users_cache.get(current_app.discord.user_id)\<close>
  followed by \<open>user.connections = connections\<close>: the object the cache returns is the
  cached object itself, so the attribute assignment is an update of the cache entry.
  When there is no entry (or no logged-in user id), \<open>user\<close> is None and the
  assignment raises AttributeError.
\<close>

definition set_cached_connections ::
  "'c \<Rightarrow> 'c discord_session \<Rightarrow> 'c discord_session py_result" where
  "set_cached_connections conns s =
     (case user_id s of
        None \<Rightarrow> Inl AttributeError
      | Some u \<Rightarrow>
          (case users_cache s u of
             None \<Rightarrow> Inl AttributeError
           | Some usr \<Rightarrow>
               Inr (s\<lparr>users_cache := (users_cache s)(u \<mapsto> usr\<lparr>connections := Some conns\<rparr>)\<rparr>)))"

definition update_users_cache ::
  "'c \<Rightarrow> 'c discord_session \<Rightarrow> 'c discord_session py_result" where
  "update_users_cache conns s = py_except_attribute (set_cached_connections conns s) s"

definition UserConnection_fetch_from_api ::
  "bool \<Rightarrow> conn_session \<Rightarrow> user_connection fetched py_result \<times> conn_session" where
  "UserConnection_fetch_from_api cache s =
     (case DiscordModelsBase_fetch_from_api UserConnection_init user_connection_MANY
             user_connection_ROUTE s of
        Inl e \<Rightarrow> (Inl e, s)
      | Inr conns \<Rightarrow>
          (if cache then
             (case update_users_cache conns s of
                Inl e \<Rightarrow> (Inl e, s)
              | Inr s' \<Rightarrow> (Inr conns, s'))
           else (Inr conns, s)))"

section \<open>Well-formed connections\<close>

text \<open>The spec's invariant of a model: every attribute is the function of the stored
  payload that the constructor computes, so a well-formed connection is exactly what the
  constructor builds from its own \<open>_payload\<close>.\<close>

definition wf_user_connection :: "user_connection \<Rightarrow> bool" where
  "wf_user_connection c \<longleftrightarrow> UserConnection_init (conn_payload c) = Inr c"

section \<open>Example data\<close>

text \<open>A payload in the shape of the spec's scenario and a session whose logged-in user
  (id 7) is cached and whose API returns that payload as its only connection.\<close>

definition example_payload :: json where
  "example_payload = JObj [(''id'', JStr ''1''), (''visibility'', JInt 1), (''integrations'', JList [])]"

definition example_session :: conn_session where
  "example_session =
     \<lparr>user_id = Some 7, users_cache = [7 \<mapsto> \<lparr>uid = 7, connections = None\<rparr>],
      api = (\<lambda>route. Inr (JList [example_payload]))\<rparr>"

definition example_session_offline :: conn_session where
  "example_session_offline = example_session\<lparr>api := (\<lambda>route. Inl RateLimited)\<rparr>"

definition example_session_anonymous :: conn_session where
  "example_session_anonymous = example_session\<lparr>user_id := None\<rparr>"

definition example_session_bad_element :: conn_session where
  "example_session_bad_element =
     example_session\<lparr>api := (\<lambda>route. Inr (JList [example_payload, JStr ''x'', JNull]))\<rparr>"

definition example_connection :: user_connection where
  "example_connection =
     \<lparr>conn_payload = example_payload, conn_id = JStr ''1'', conn_name = JNull, conn_type = JNull,
      conn_revoked = JNull, conn_integrations = [], conn_verified = JNull, conn_friend_sync = JNull,
      conn_show_activity = JNull, conn_visibility = JInt 1, conn_two_way_link = JNull\<rparr>"

section \<open>Evaluation lemmas\<close>

lemma get_integrations_JObj [simp]:
  "get_integrations (JObj d) =
     res_bind (py_iter (dict_get d ''integrations'' (JList []))) (py_map Integration_init)"
  by (simp add: get_integrations_def)

lemma UserConnection_init_not_dict [simp, py_simps]:
  "\<not> is_dict p \<Longrightarrow> UserConnection_init p = Inl TypeError"
  by (simp add: UserConnection_init_def)

lemma UserConnection_init_no_id [simp, py_simps]:
  "map_of d ''id'' = None \<Longrightarrow> UserConnection_init (JObj d) = Inl (KeyError ''id'')"
  by (simp add: UserConnection_init_def)

lemma UserConnection_init_id:
  "map_of d ''id'' = Some v \<Longrightarrow>
   UserConnection_init (JObj d) =
     res_bind (get_integrations (JObj d)) (\<lambda>ints.
       Inr \<lparr>conn_payload = JObj d, conn_id = v, conn_name = dict_get d ''name'' JNull,
            conn_type = dict_get d ''type'' JNull, conn_revoked = dict_get d ''revoked'' JNull,
            conn_integrations = ints, conn_verified = dict_get d ''verified'' JNull,
            conn_friend_sync = dict_get d ''friend_sync'' JNull,
            conn_show_activity = dict_get d ''show_activity'' JNull,
            conn_visibility = dict_get d ''visibility'' JNull,
            conn_two_way_link = dict_get d ''two_way_link'' JNull\<rparr>)"
  by (simp add: UserConnection_init_def del: get_integrations_JObj)

lemma UserConnection_init_payload:
  "UserConnection_init p = Inr c \<Longrightarrow> conn_payload c = p"
  by (cases p) (auto simp: UserConnection_init_def res_bind_eq_Inr)

lemma UserConnection_init_wf: "UserConnection_init p = Inr c \<Longrightarrow> wf_user_connection c"
  by (simp add: wf_user_connection_def UserConnection_init_payload)

lemma UserConnection_init_eq_Inr:
  "UserConnection_init p = Inr c \<longleftrightarrow>
     (\<exists>d v ints. p = JObj d \<and> map_of d ''id'' = Some v \<and> get_integrations p = Inr ints \<and>
        c = \<lparr>conn_payload = JObj d, conn_id = v, conn_name = dict_get d ''name'' JNull,
            conn_type = dict_get d ''type'' JNull, conn_revoked = dict_get d ''revoked'' JNull,
            conn_integrations = ints, conn_verified = dict_get d ''verified'' JNull,
            conn_friend_sync = dict_get d ''friend_sync'' JNull,
            conn_show_activity = dict_get d ''show_activity'' JNull,
            conn_visibility = dict_get d ''visibility'' JNull,
            conn_two_way_link = dict_get d ''two_way_link'' JNull\<rparr>)"
proof (cases p)
  case (JObj d)
  then show ?thesis
    by (cases "map_of d ''id''")
       (auto simp: UserConnection_init_id res_bind_eq_Inr simp del: get_integrations_JObj)
qed (auto simp: UserConnection_init_def)

lemma update_users_cache_eq:
  "update_users_cache conns s =
     Inr (case user_id s of None \<Rightarrow> s
          | Some u \<Rightarrow> (case users_cache s u of None \<Rightarrow> s
               | Some usr \<Rightarrow> s\<lparr>users_cache := (users_cache s)(u \<mapsto> usr\<lparr>connections := Some conns\<rparr>)\<rparr>))"
  by (auto simp: update_users_cache_def set_cached_connections_def split: option.splits)

lemma fetch_eq:
  "UserConnection_fetch_from_api cache s =
     (case DiscordModelsBase_fetch_from_api UserConnection_init True user_connection_ROUTE s of
        Inl e \<Rightarrow> (Inl e, s)
      | Inr conns \<Rightarrow> (Inr conns, if cache then projr (update_users_cache conns s) else s))"
  by (auto simp: UserConnection_fetch_from_api_def user_connection_MANY_def update_users_cache_eq
      split: sum.splits)

lemma example_payload_init [simp]: "UserConnection_init example_payload = Inr example_connection"
  by (simp add: example_payload_def example_connection_def UserConnection_init_def)

lemma example_session_base_fetch [simp]:
  "DiscordModelsBase_fetch_from_api UserConnection_init True user_connection_ROUTE example_session =
     Inr (Many [example_connection])"
  by (simp add: DiscordModelsBase_fetch_from_api_def discord_request_def example_session_def)

lemma fetch_fst_Inr:
  "fst (UserConnection_fetch_from_api cache s) = Inr r \<longleftrightarrow>
   DiscordModelsBase_fetch_from_api UserConnection_init True user_connection_ROUTE s = Inr r"
  by (simp add: fetch_eq split: sum.split)

lemma fetch_fst:
  "fst (UserConnection_fetch_from_api cache s) =
   DiscordModelsBase_fetch_from_api UserConnection_init True user_connection_ROUTE s"
  by (simp add: fetch_eq split: sum.split)

lemma fetch_base_Inr:
  "DiscordModelsBase_fetch_from_api UserConnection_init True user_connection_ROUTE s = Inr r \<Longrightarrow>
   UserConnection_fetch_from_api cache s =
     (Inr r, if cache then projr (update_users_cache r s) else s)"
  by (simp add: fetch_eq)

lemma fetch_base_Inl:
  "DiscordModelsBase_fetch_from_api UserConnection_init True user_connection_ROUTE s = Inl e \<Longrightarrow>
   UserConnection_fetch_from_api cache s = (Inl e, s)"
  by (simp add: fetch_eq)

lemma py_map_Integration_init_dicts:
  "list_all is_dict xs \<Longrightarrow>
   \<exists>ints. py_map Integration_init xs = Inr ints \<and> map (\<lambda>i. JObj (integration_payload i)) ints = xs"
proof (induction xs)
  case Nil
  then show ?case by simp
next
  case (Cons x xs)
  then obtain d where "x = JObj d" by (cases x) auto
  with Cons show ?case by auto
qed

lemma py_map_Integration_init_Inl:
  "py_map Integration_init xs = Inl e \<Longrightarrow> e = AttributeError"
proof -
  assume "py_map Integration_init xs = Inl e"
  then obtain x where "Integration_init x = Inl e" using py_map_Inl_elem by blast
  then show ?thesis by (cases x) (auto simp: Integration_init_def)
qed

lemma py_map_Integration_init:
  "py_map Integration_init xs =
     (if list_all is_dict xs then Inr (map (\<lambda>x. \<lparr>integration_payload = dict_items x\<rparr>) xs)
      else Inl AttributeError)"
proof (induction xs)
  case (Cons x xs)
  then show ?case by (cases x) auto
qed simp

lemma get_integrations_Inl:
  "get_integrations p = Inl e \<Longrightarrow> e = TypeError \<or> e = AttributeError"
  by (auto simp: get_integrations_def res_bind_eq_Inl py_get_def py_iter_eq_Inl
      dest: py_map_Integration_init_Inl split: json.splits)

lemma fetch_users_cache_dom:
  "dom (users_cache (snd (UserConnection_fetch_from_api cache s))) = dom (users_cache s)"
  by (auto simp: fetch_eq update_users_cache_eq split: sum.split option.splits)

lemma fetch_other_fields:
  "user_id (snd (UserConnection_fetch_from_api cache s)) = user_id s \<and>
   api (snd (UserConnection_fetch_from_api cache s)) = api s"
  by (auto simp: fetch_eq update_users_cache_eq split: sum.split option.splits)

section \<open>Properties of fetch_from_api\<close>

text \<open>C1. fetch_from_api succeeds exactly when the request succeeds, its JSON response
  can be iterated and every element constructs a connection; the result is then the list
  of those connections, one per element in the response's order, whatever the cache
  flag.\<close>

theorem fetch_from_api_result:
  "fst (UserConnection_fetch_from_api cache s) = Inr r \<longleftrightarrow>
     (\<exists>j ps cs. api s user_connection_ROUTE = Inr j \<and> py_iter j = Inr ps \<and>
        list_all2 (\<lambda>p c. UserConnection_init p = Inr c) ps cs \<and> r = Many cs)"
  by (simp only: fetch_fst_Inr base_fetch_many_eq_Inr)

text \<open>C2. When the API answers with a JSON array, the connections fetch_from_api
  returns wrap the array's elements, in order: the payload of the i-th connection is the
  i-th element.\<close>

theorem fetch_from_api_payloads:
  assumes "UserConnection_fetch_from_api cache s = (Inr (Many cs), s')"
    and "api s user_connection_ROUTE = Inr (JList ps)"
  shows "map conn_payload cs = ps"
proof -
  have "DiscordModelsBase_fetch_from_api UserConnection_init True user_connection_ROUTE s = Inr (Many cs)"
    using assms(1) by (auto simp: fetch_eq split: sum.splits)
  then have "list_all2 (\<lambda>p c. UserConnection_init p = Inr c) ps cs"
    using assms(2) by (auto simp: base_fetch_many_eq_Inr)
  then show ?thesis
    by (induction rule: list_all2_induct) (auto dest: UserConnection_init_payload)
qed

theorem fetch_from_api_payloads_witness:
  "UserConnection_fetch_from_api True example_session =
     (Inr (Many [example_connection]), snd (UserConnection_fetch_from_api True example_session)) \<and>
   api example_session user_connection_ROUTE = Inr (JList [example_payload]) \<and>
   map conn_payload [example_connection] = [example_payload]"
proof -
  have f: "UserConnection_fetch_from_api True example_session =
     (Inr (Many [example_connection]), snd (UserConnection_fetch_from_api True example_session))"
    by (simp add: fetch_eq)
  have a: "api example_session user_connection_ROUTE = Inr (JList [example_payload])"
    by (simp add: example_session_def)
  show ?thesis using fetch_from_api_payloads [OF f a] f a by simp
qed

text \<open>C3. With cache=True, when the logged-in user is in the users cache, a successful
  fetch overwrites that cached user's connections attribute with the fetched list and
  changes nothing else.\<close>

theorem fetch_cache_hit:
  assumes "user_id s = Some u" and "users_cache s u = Some usr"
    and "fst (UserConnection_fetch_from_api True s) = Inr r"
  shows "snd (UserConnection_fetch_from_api True s) =
           s\<lparr>users_cache := (users_cache s)(u \<mapsto> usr\<lparr>connections := Some r\<rparr>)\<rparr>"
proof -
  from assms(3) have "DiscordModelsBase_fetch_from_api UserConnection_init True user_connection_ROUTE s = Inr r"
    by (simp only: fetch_fst_Inr)
  then show ?thesis using assms(1,2) by (simp add: fetch_base_Inr update_users_cache_eq)
qed

theorem fetch_cache_hit_witness:
  "user_id example_session = Some 7 \<and>
   users_cache example_session 7 = Some \<lparr>uid = 7, connections = None\<rparr> \<and>
   fst (UserConnection_fetch_from_api True example_session) = Inr (Many [example_connection]) \<and>
   snd (UserConnection_fetch_from_api True example_session) =
     example_session\<lparr>users_cache := (users_cache example_session)
        (7 \<mapsto> \<lparr>uid = 7, connections = Some (Many [example_connection])\<rparr>)\<rparr>"
proof -
  have h1: "user_id example_session = Some 7" by (simp add: example_session_def)
  have h2: "users_cache example_session 7 = Some \<lparr>uid = 7, connections = None\<rparr>"
    by (simp add: example_session_def)
  have h3: "fst (UserConnection_fetch_from_api True example_session) = Inr (Many [example_connection])"
    by (simp add: fetch_eq)
  show ?thesis using fetch_cache_hit [OF h1 h2 h3] h1 h2 h3 by simp
qed

text \<open>C4. With cache=True, when there is no logged-in user id or no cache entry for it,
  a successful fetch returns the parsed list without raising and leaves the session
  unchanged: the AttributeError of the assignment is swallowed.\<close>

theorem fetch_cache_miss:
  assumes "DiscordModelsBase_fetch_from_api UserConnection_init user_connection_MANY
             user_connection_ROUTE s = Inr r"
    and "user_id s = None \<or> (\<exists>u. user_id s = Some u \<and> users_cache s u = None)"
  shows "UserConnection_fetch_from_api True s = (Inr r, s)"
  using assms
  by (auto simp: UserConnection_fetch_from_api_def update_users_cache_def set_cached_connections_def)

theorem fetch_cache_miss_witness:
  "DiscordModelsBase_fetch_from_api UserConnection_init user_connection_MANY
     user_connection_ROUTE example_session_anonymous = Inr (Many [example_connection]) \<and>
   user_id example_session_anonymous = None \<and>
   UserConnection_fetch_from_api True example_session_anonymous =
     (Inr (Many [example_connection]), example_session_anonymous)"
proof -
  have h1: "DiscordModelsBase_fetch_from_api UserConnection_init user_connection_MANY
     user_connection_ROUTE example_session_anonymous = Inr (Many [example_connection])"
    by (simp add: user_connection_MANY_def DiscordModelsBase_fetch_from_api_def discord_request_def
        example_session_anonymous_def example_session_def)
  have h2: "user_id example_session_anonymous = None"
    by (simp add: example_session_anonymous_def)
  show ?thesis using fetch_cache_miss [OF h1] h1 h2 by simp
qed

text \<open>C5. With cache=False, fetch_from_api never changes the session.\<close>

theorem fetch_no_cache_state: "snd (UserConnection_fetch_from_api False s) = s"
  by (simp add: fetch_eq split: sum.split)

text \<open>C6. fetch_from_api is atomic: when it raises, the session (and its users cache) is
  left as it was.\<close>

theorem fetch_error_atomic:
  "fst (UserConnection_fetch_from_api cache s) = Inl e \<Longrightarrow> snd (UserConnection_fetch_from_api cache s) = s"
  by (auto simp: fetch_eq split: sum.splits)

theorem fetch_error_atomic_witness:
  "fst (UserConnection_fetch_from_api True example_session_bad_element) = Inl TypeError \<and>
   snd (UserConnection_fetch_from_api True example_session_bad_element) = example_session_bad_element"
proof -
  have h: "fst (UserConnection_fetch_from_api True example_session_bad_element) = Inl TypeError"
    by (simp add: fetch_eq DiscordModelsBase_fetch_from_api_def discord_request_def
        example_session_bad_element_def)
  show ?thesis using fetch_error_atomic [OF h] h by simp
qed

text \<open>C7. A failure of the request primitive (unauthorized, rate limited, HTTP error)
  propagates unmodified out of fetch_from_api, and nothing is cached.\<close>

theorem fetch_request_error:
  "api s user_connection_ROUTE = Inl e \<Longrightarrow>
   UserConnection_fetch_from_api cache s = (Inl (RequestError e), s)"
  by (simp add: fetch_base_Inl base_fetch_request_error)

theorem fetch_request_error_witness:
  "api example_session_offline user_connection_ROUTE = Inl RateLimited \<and>
   UserConnection_fetch_from_api True example_session_offline =
     (Inl (RequestError RateLimited), example_session_offline)"
proof -
  have h: "api example_session_offline user_connection_ROUTE = Inl RateLimited"
    by (simp add: example_session_offline_def)
  show ?thesis using fetch_request_error [OF h] h by simp
qed

section \<open>Properties of the constructor\<close>

text \<open>C8. The constructor raises KeyError('id') exactly when the payload is a dict
  without an "id" key; the lookup of "id" comes first, so no other defect of the payload
  can mask it.\<close>

theorem init_missing_id:
  "UserConnection_init p = Inl (KeyError ''id'') \<longleftrightarrow> (\<exists>d. p = JObj d \<and> map_of d ''id'' = None)"
proof (cases p)
  case (JObj d)
  then show ?thesis
    by (cases "map_of d ''id''")
       (auto simp: UserConnection_init_id res_bind_eq_Inl simp del: get_integrations_JObj
        dest: get_integrations_Inl)
qed auto

text \<open>C9. A payload with an "id" and none of the optional keys yields a connection whose
  optional attributes are all None and whose integrations list is empty.\<close>

theorem init_defaults:
  assumes "map_of d ''id'' = Some v"
    and "\<forall>k\<in>set [''name'', ''type'', ''revoked'', ''integrations'', ''verified'', ''friend_sync'',
               ''show_activity'', ''visibility'', ''two_way_link'']. map_of d k = None"
  shows "UserConnection_init (JObj d) =
           Inr \<lparr>conn_payload = JObj d, conn_id = v, conn_name = JNull, conn_type = JNull,
                conn_revoked = JNull, conn_integrations = [], conn_verified = JNull,
                conn_friend_sync = JNull, conn_show_activity = JNull, conn_visibility = JNull,
                conn_two_way_link = JNull\<rparr>"
  using assms by (simp add: UserConnection_init_id)

theorem init_defaults_witness:
  "map_of [(''id'', JStr ''42'')] ''id'' = Some (JStr ''42'') \<and>
   UserConnection_init (JObj [(''id'', JStr ''42'')]) =
     Inr \<lparr>conn_payload = JObj [(''id'', JStr ''42'')], conn_id = JStr ''42'', conn_name = JNull,
          conn_type = JNull, conn_revoked = JNull, conn_integrations = [], conn_verified = JNull,
          conn_friend_sync = JNull, conn_show_activity = JNull, conn_visibility = JNull,
          conn_two_way_link = JNull\<rparr>"
  using init_defaults [of "[(''id'', JStr ''42'')]" "JStr ''42''"] by simp

text \<open>C10. When "integrations" holds a JSON array of N dicts, the connection has N
  Integration objects wrapping those dicts in the array's order.\<close>

theorem init_integrations:
  assumes "map_of d ''id'' = Some v" and "map_of d ''integrations'' = Some (JList xs)"
    and "list_all is_dict xs"
  shows "\<exists>c. UserConnection_init (JObj d) = Inr c \<and>
             map (\<lambda>i. JObj (integration_payload i)) (conn_integrations c) = xs"
proof -
  obtain ints where "py_map Integration_init xs = Inr ints"
    and "map (\<lambda>i. JObj (integration_payload i)) ints = xs"
    using py_map_Integration_init_dicts [OF assms(3)] by blast
  then show ?thesis using assms(1,2) by (simp add: UserConnection_init_id)
qed

theorem init_integrations_witness:
  "\<exists>c. UserConnection_init (JObj [(''id'', JStr ''1''), (''integrations'',
          JList [JObj [(''id'', JStr ''8'')], JObj [(''id'', JStr ''9'')]])]) = Inr c \<and>
       map (\<lambda>i. JObj (integration_payload i)) (conn_integrations c) =
         [JObj [(''id'', JStr ''8'')], JObj [(''id'', JStr ''9'')]]"
  by (rule init_integrations [of _ "JStr ''1''"]) simp_all

text \<open>C11. An "integrations" key present with the value null is not treated as absent:
  \<open>.get\<close> returns None, iterating it raises TypeError, and so does the
  constructor.\<close>

theorem init_integrations_null:
  assumes "map_of d ''id'' = Some v" and "map_of d ''integrations'' = Some JNull"
  shows "UserConnection_init (JObj d) = Inl TypeError"
  using assms by (simp add: UserConnection_init_id)

theorem init_integrations_null_witness:
  "UserConnection_init (JObj [(''id'', JStr ''1''), (''integrations'', JNull)]) = Inl TypeError"
  by (rule init_integrations_null [of _ "JStr ''1''"]) simp_all

text \<open>C12. For a constructed connection whose "visibility" is absent, null or an
  integer, is_visible holds exactly when it is a non-zero integer.\<close>

theorem is_visible_int:
  assumes "UserConnection_init (JObj d) = Inr c"
    and "map_of d ''visibility'' \<in> {None, Some JNull} \<union> Some ` JInt ` UNIV"
  shows "is_visible c \<longleftrightarrow> (\<exists>n. map_of d ''visibility'' = Some (JInt n) \<and> n \<noteq> 0)"
  using assms by (auto simp: UserConnection_init_eq_Inr is_visible_def dict_get_def)

theorem is_visible_int_witness:
  "UserConnection_init example_payload = Inr example_connection \<and>
   is_visible example_connection"
proof -
  have h: "UserConnection_init (JObj [(''id'', JStr ''1''), (''visibility'', JInt 1),
             (''integrations'', JList [])]) = Inr example_connection"
    using example_payload_init by (simp only: example_payload_def)
  have "is_visible example_connection \<longleftrightarrow> (\<exists>n. Some (JInt 1) = Some (JInt n) \<and> n \<noteq> 0)"
    using is_visible_int [OF h] by simp
  then show ?thesis by simp
qed

text \<open>C13. Elements are constructed in order and the first failing one decides: when
  every element before it constructs, an element of the response that is not a dict
  makes fetch_from_api raise TypeError, with the session unchanged.\<close>

theorem fetch_first_bad_element:
  assumes "api s user_connection_ROUTE = Inr (JList (pre @ p # post))"
    and "\<forall>q\<in>set pre. \<not> isl (UserConnection_init q)" and "\<not> is_dict p"
  shows "UserConnection_fetch_from_api cache s = (Inl TypeError, s)"
proof -
  obtain ys where "py_map UserConnection_init pre = Inr ys"
    using py_map_isr [of pre UserConnection_init] assms(2) by blast
  then have "py_map UserConnection_init (pre @ p # post) = Inl TypeError"
    using assms(3) by (simp add: py_map_append)
  then show ?thesis using assms(1)
    by (simp add: fetch_base_Inl DiscordModelsBase_fetch_from_api_def discord_request_def)
qed

theorem fetch_first_bad_element_witness:
  "UserConnection_fetch_from_api False example_session_bad_element =
     (Inl TypeError, example_session_bad_element)"
  by (rule fetch_first_bad_element [where pre = "[example_payload]" and p = "JStr ''x''"
        and post = "[JNull]"]) (simp_all add: example_session_bad_element_def)

section \<open>Further properties\<close>

text \<open>C16. is_visible is Python truthiness, not "is a non-zero integer": a constructed
  connection whose visibility is a string is visible exactly when the string is non-empty,
  so the string "0" counts as visible.\<close>

theorem is_visible_string:
  assumes "UserConnection_init (JObj d) = Inr c" and "map_of d ''visibility'' = Some (JStr str)"
  shows "is_visible c \<longleftrightarrow> str \<noteq> []"
  using assms by (auto simp: UserConnection_init_eq_Inr is_visible_def)

theorem is_visible_string_witness:
  "\<exists>c. UserConnection_init (JObj [(''id'', JStr ''1''), (''visibility'', JStr ''0'')]) = Inr c \<and>
       is_visible c"
proof -
  obtain c where c: "UserConnection_init (JObj [(''id'', JStr ''1''), (''visibility'', JStr ''0'')]) = Inr c"
    by (simp add: UserConnection_init_def)
  have "is_visible c \<longleftrightarrow> ''0'' \<noteq> []"
    by (rule is_visible_string [OF c]) simp
  with c show ?thesis by auto
qed

text \<open>C17. An element of "integrations" that is not a dict makes the constructor raise
  AttributeError (from \<open>.get\<close> inside Integration), after the "id" check.\<close>

theorem init_integration_not_dict:
  assumes "map_of d ''id'' = Some v" and "map_of d ''integrations'' = Some (JList xs)"
    and "\<exists>x\<in>set xs. \<not> is_dict x"
  shows "UserConnection_init (JObj d) = Inl AttributeError"
  using assms by (auto simp: UserConnection_init_id py_map_Integration_init list_all_iff)

theorem init_integration_not_dict_witness:
  "UserConnection_init (JObj [(''id'', JStr ''1''), (''integrations'', JList [JStr ''twitch''])]) =
     Inl AttributeError"
  by (rule init_integration_not_dict [of _ "JStr ''1''" "[JStr ''twitch'']"]) simp_all

text \<open>C18. A cached fetch is idempotent on the session: repeating it against the same
  API leaves the session as the first one did.\<close>

theorem fetch_cache_idempotent:
  "snd (UserConnection_fetch_from_api True (snd (UserConnection_fetch_from_api True s))) =
   snd (UserConnection_fetch_from_api True s)"
proof (cases "DiscordModelsBase_fetch_from_api UserConnection_init True user_connection_ROUTE s")
  case (Inl e)
  then show ?thesis by (simp add: fetch_base_Inl)
next
  case (Inr r)
  define s1 where "s1 = snd (UserConnection_fetch_from_api True s)"
  have "api s1 user_connection_ROUTE = api s user_connection_ROUTE"
    by (simp add: s1_def fetch_other_fields)
  then have b: "DiscordModelsBase_fetch_from_api UserConnection_init True user_connection_ROUTE s1 = Inr r"
    using Inr base_fetch_api_cong by metis
  have e1: "s1 = projr (update_users_cache r s)"
    unfolding s1_def using fetch_base_Inr [OF Inr] by simp
  have e2: "snd (UserConnection_fetch_from_api True s1) = projr (update_users_cache r s1)"
    using fetch_base_Inr [OF b] by simp
  show ?thesis
    unfolding s1_def [symmetric] e2
    by (simp add: e1 update_users_cache_eq split: option.split)
qed

text \<open>C21. fetch_from_api issues one GET against its fixed route and nothing else
  decides its result: two sessions whose API answers alike on
  \<open>/users/@me/connections\<close> get the same result, whatever their logged-in user, users
  cache or cache flag.\<close>

theorem fetch_reads_route_only:
  "api s user_connection_ROUTE = api s' user_connection_ROUTE \<Longrightarrow>
   fst (UserConnection_fetch_from_api cache s) = fst (UserConnection_fetch_from_api cache' s')"
  by (simp add: fetch_fst base_fetch_api_cong [of s _ s'])

theorem fetch_reads_route_only_witness:
  "fst (UserConnection_fetch_from_api True example_session) =
   fst (UserConnection_fetch_from_api False
     (example_session_anonymous\<lparr>api := (\<lambda>r. if r = user_connection_ROUTE
                                               then api example_session r else Inl HttpException)\<rparr>))"
  by (rule fetch_reads_route_only) simp

text \<open>C22. An API answer that is a JSON object instead of an array is iterated by its
  keys: an empty object gives an empty list of connections, any other object makes
  fetch_from_api raise TypeError (a key string is not a dict).\<close>

theorem fetch_dict_response:
  "api s user_connection_ROUTE = Inr (JObj d) \<Longrightarrow>
   fst (UserConnection_fetch_from_api cache s) = (if d = [] then Inr (Many []) else Inl TypeError)"
  by (cases d) (simp_all add: fetch_fst DiscordModelsBase_fetch_from_api_def discord_request_def)

theorem fetch_dict_response_witness:
  "fst (UserConnection_fetch_from_api True
      (example_session\<lparr>api := (\<lambda>r. Inr (JObj [(''id'', JStr ''1'')]))\<rparr>)) = Inl TypeError"
  using fetch_dict_response [of "example_session\<lparr>api := (\<lambda>r. Inr (JObj [(''id'', JStr ''1'')]))\<rparr>"]
  by simp

section \<open>Integrations by the kind of JSON value\<close>

lemma list_all_is_dict_strs [simp]: "list_all is_dict (map (\<lambda>x. JStr (f x)) xs) \<longleftrightarrow> xs = []"
  by (cases xs) simp_all

text \<open>C26. __get_integrations on every kind of value the integrations key can hold: an
  array gives one Integration per element (AttributeError at a non-dict element); a
  string or an object is iterable, so an empty one gives no integrations and a non-empty
  one raises AttributeError (its characters or keys are strings, not dicts); null, a
  boolean or a number is not iterable and raises TypeError.\<close>

theorem get_integrations_by_kind:
  "get_integrations (JObj d) =
     (case dict_get d ''integrations'' (JList []) of
        JList xs \<Rightarrow> py_map Integration_init xs
      | JStr cs \<Rightarrow> (if cs = [] then Inr [] else Inl AttributeError)
      | JObj kvs \<Rightarrow> (if kvs = [] then Inr [] else Inl AttributeError)
      | JNull \<Rightarrow> Inl TypeError
      | JBool b \<Rightarrow> Inl TypeError
      | JInt n \<Rightarrow> Inl TypeError)"
  by (simp add: py_map_Integration_init split: json.split)

end
