(* ===== verification/Session_Runs.thy ===== *)
theory Session_Runs
  imports Connections
begin

text \<open>
  The connection model inside a running application. A session changes by interleaved
  events: fetching connections (the verified class method), the upstream data changing,
  login and logout, and another model caching a freshly fetched user (as the spec says
  \<open>User\<close> objects enter the process-wide cache; modelled from the spec). The
  application is single-threaded, so a run is a sequence of events, applied by the
  step function \<open>session_step\<close>. The invariant \<open>conn_session_inv\<close> says that
  each cache entry is filed under its user's id and that a cached connections attribute
  is a list of well-formed connections; \<open>cached_connections\<close> abstracts a session to
  the connections lists it caches per user, and \<open>refresh_spec\<close> is the abstract
  contract of a cached fetch on that view (used by theory Session_Refinement).
\<close>

fun cached_conns_ok :: "user_connection fetched option \<Rightarrow> bool" where
  "cached_conns_ok None = True"
| "cached_conns_ok (Some (Many cs)) = list_all wf_user_connection cs"
| "cached_conns_ok (Some (One c)) = False"

definition conn_session_inv :: "conn_session \<Rightarrow> bool" where
  "conn_session_inv s \<longleftrightarrow>
     (\<forall>u\<in>dom (users_cache s).
        uid (the (users_cache s u)) = u \<and> cached_conns_ok (connections (the (users_cache s u))))"

datatype session_event =
    FetchConnections bool
  | ApiChange "string \<Rightarrow> api_error + json"
  | Login int
  | Logout
  | CacheUser int

definition cache_user :: "int \<Rightarrow> conn_session \<Rightarrow> conn_session" where
  "cache_user u s = s\<lparr>users_cache := (users_cache s)(u \<mapsto> \<lparr>uid = u, connections = None\<rparr>)\<rparr>"

fun session_step :: "conn_session \<Rightarrow> session_event \<Rightarrow> conn_session" where
  "session_step s (FetchConnections cache) = snd (UserConnection_fetch_from_api cache s)"
| "session_step s (ApiChange a) = s\<lparr>api := a\<rparr>"
| "session_step s (Login u) = s\<lparr>user_id := Some u\<rparr>"
| "session_step s Logout = s\<lparr>user_id := None\<rparr>"
| "session_step s (CacheUser u) = cache_user u s"

fun session_run :: "conn_session \<Rightarrow> session_event list \<Rightarrow> conn_session" where
  "session_run s [] = s"
| "session_run s (e # es) = session_run (session_step s e) es"

definition cached_connections :: "conn_session \<Rightarrow> int \<rightharpoonup> user_connection list" where
  "cached_connections s u =
     (case users_cache s u of
        None \<Rightarrow> None
      | Some usr \<Rightarrow> (case connections usr of Some (Many cs) \<Rightarrow> Some cs | _ \<Rightarrow> None))"

definition refresh_spec ::
  "int option \<Rightarrow> int set \<Rightarrow> user_connection list \<Rightarrow> (int \<rightharpoonup> user_connection list) \<Rightarrow>
   (int \<rightharpoonup> user_connection list)" where
  "refresh_spec uo cached cs m = (case uo of Some u \<Rightarrow> if u \<in> cached then m(u \<mapsto> cs) else m | None \<Rightarrow> m)"

section \<open>Lemmas\<close>

lemma constructed_all_wf:
  "list_all2 (\<lambda>p c. UserConnection_init p = Inr c) ps cs \<Longrightarrow> list_all wf_user_connection cs"
  by (induction rule: list_all2_induct) (auto intro: UserConnection_init_wf)

lemma base_fetch_cached_ok:
  "DiscordModelsBase_fetch_from_api UserConnection_init True user_connection_ROUTE s = Inr r \<Longrightarrow>
   cached_conns_ok (Some r)"
  by (auto simp: base_fetch_many_eq_Inr dest: constructed_all_wf)

lemma fetch_cached_update:
  "fst (UserConnection_fetch_from_api True s) = Inr r \<Longrightarrow> user_id s = Some u \<Longrightarrow>
   users_cache s u = Some usr \<Longrightarrow>
   snd (UserConnection_fetch_from_api True s) =
     s\<lparr>users_cache := (users_cache s)(u \<mapsto> usr\<lparr>connections := Some r\<rparr>)\<rparr>"
  by (simp add: fetch_fst_Inr fetch_base_Inr update_users_cache_eq)

lemma fetch_state_unchanged:
  "fst (UserConnection_fetch_from_api True s) = Inr r \<Longrightarrow>
   (user_id s = None \<or> (\<exists>u. user_id s = Some u \<and> users_cache s u = None)) \<Longrightarrow>
   snd (UserConnection_fetch_from_api True s) = s"
  by (auto simp: fetch_fst_Inr fetch_base_Inr update_users_cache_eq)

lemma inv_set_connections:
  "conn_session_inv s \<Longrightarrow> users_cache s u = Some usr \<Longrightarrow> cached_conns_ok (Some r) \<Longrightarrow>
   conn_session_inv (s\<lparr>users_cache := (users_cache s)(u \<mapsto> usr\<lparr>connections := Some r\<rparr>)\<rparr>)"
  by (auto simp: conn_session_inv_def dom_def)

lemma fetch_inv:
  assumes "conn_session_inv s"
  shows "conn_session_inv (snd (UserConnection_fetch_from_api cache s))"
proof (cases "DiscordModelsBase_fetch_from_api UserConnection_init True user_connection_ROUTE s")
  case (Inl e)
  then show ?thesis using assms by (simp add: fetch_base_Inl)
next
  case (Inr r)
  then have ok: "cached_conns_ok (Some r)" by (rule base_fetch_cached_ok)
  show ?thesis using Inr assms inv_set_connections [OF assms _ ok]
    by (auto simp: fetch_base_Inr update_users_cache_eq split: option.split)
qed

lemma session_step_inv:
  assumes "conn_session_inv s"
  shows "conn_session_inv (session_step s e)"
  using assms
proof (cases e)
  case (FetchConnections cache)
  then show ?thesis using assms by (simp add: fetch_inv)
qed (auto simp: cache_user_def conn_session_inv_def dom_def)

lemma session_step_dom:
  "dom (users_cache (session_step s e)) =
     dom (users_cache s) \<union> (case e of CacheUser u \<Rightarrow> {u} | _ \<Rightarrow> {})"
  by (cases e) (auto simp: fetch_users_cache_dom cache_user_def)

section \<open>Invariant and runs\<close>

text \<open>C14. Every run of events (cached and uncached fetches, API changes, login,
  logout, users being cached) keeps the session invariant: each cache entry is filed
  under its user's id and every cached connections attribute is a list of well-formed
  connections.\<close>

theorem run_preserves_inv:
  "conn_session_inv s \<Longrightarrow> conn_session_inv (session_run s es)"
  by (induction es arbitrary: s) (auto intro: session_step_inv)

theorem run_preserves_inv_witness:
  "conn_session_inv example_session \<and>
   conn_session_inv (session_run example_session [FetchConnections True, Logout, FetchConnections True])"
proof -
  have h: "conn_session_inv example_session"
    by (simp add: conn_session_inv_def example_session_def)
  show ?thesis using run_preserves_inv [OF h] h by blast
qed

text \<open>C15. Over any run, the users cache gains exactly the users other code caches and
  loses none: fetching connections neither creates an entry on a miss nor evicts one.\<close>

theorem run_cache_dom:
  "dom (users_cache (session_run s es)) = dom (users_cache s) \<union> {u. CacheUser u \<in> set es}"
proof (induction es arbitrary: s)
  case Nil
  then show ?case by simp
next
  case (Cons e es)
  have "dom (users_cache (session_run s (e # es))) =
        dom (users_cache (session_step s e)) \<union> {u. CacheUser u \<in> set es}"
    using Cons.IH by simp
  also have "\<dots> = dom (users_cache s) \<union> {u. CacheUser u \<in> set (e # es)}"
    unfolding session_step_dom by (cases e) auto
  finally show ?case .
qed

section \<open>Ordering of events\<close>

text \<open>C23. The order of login and a cached fetch matters: fetching before the user id is
  in the session caches nothing (the assignment to None is swallowed), fetching after
  login stores the list in that user's cache entry.\<close>

theorem fetch_login_order:
  assumes "user_id s = None" and "users_cache s u = Some usr"
    and "DiscordModelsBase_fetch_from_api UserConnection_init True user_connection_ROUTE s = Inr (Many cs)"
  shows "cached_connections (session_run s [FetchConnections True, Login u]) = cached_connections s \<and>
         cached_connections (session_run s [Login u, FetchConnections True]) =
           (cached_connections s)(u \<mapsto> cs)"
proof -
  have f: "fst (UserConnection_fetch_from_api True s) = Inr (Many cs)"
    using assms(3) by (simp only: fetch_fst_Inr)
  have first: "session_run s [FetchConnections True, Login u] = s\<lparr>user_id := Some u\<rparr>"
    using fetch_state_unchanged [OF f] assms(1) by simp
  have "DiscordModelsBase_fetch_from_api UserConnection_init True user_connection_ROUTE
          (s\<lparr>user_id := Some u\<rparr>) = Inr (Many cs)"
  proof -
    have "api (s\<lparr>user_id := Some u\<rparr>) user_connection_ROUTE = api s user_connection_ROUTE"
      by simp
    from base_fetch_api_cong [OF this, of UserConnection_init True] assms(3) show ?thesis
      by (rule trans)
  qed
  then have "fst (UserConnection_fetch_from_api True (s\<lparr>user_id := Some u\<rparr>)) = Inr (Many cs)"
    by (simp only: fetch_fst_Inr)
  from fetch_cached_update [OF this, of u usr]
  have second: "session_run s [Login u, FetchConnections True] =
      s\<lparr>user_id := Some u, users_cache := (users_cache s)(u \<mapsto> usr\<lparr>connections := Some (Many cs)\<rparr>)\<rparr>"
    using assms(2) by simp
  show ?thesis
    unfolding first second by (auto simp: cached_connections_def fun_eq_iff)
qed

theorem fetch_login_order_witness:
  "cached_connections (session_run example_session_anonymous [FetchConnections True, Login 7]) =
     cached_connections example_session_anonymous \<and>
   cached_connections (session_run example_session_anonymous [Login 7, FetchConnections True]) =
     (cached_connections example_session_anonymous)(7 \<mapsto> [example_connection])"
proof -
  have h1: "user_id example_session_anonymous = None"
    by (simp add: example_session_anonymous_def)
  have h2: "users_cache example_session_anonymous 7 = Some \<lparr>uid = 7, connections = None\<rparr>"
    by (simp add: example_session_anonymous_def example_session_def)
  have h3: "DiscordModelsBase_fetch_from_api UserConnection_init True user_connection_ROUTE
              example_session_anonymous = Inr (Many [example_connection])"
    by (simp add: DiscordModelsBase_fetch_from_api_def discord_request_def
        example_session_anonymous_def example_session_def)
  show ?thesis by (rule fetch_login_order [OF h1 h2 h3])
qed

end
