(* ===== verification/Session_Refinement.thy ===== *)
theory Session_Refinement
  imports Session_Runs
begin

text \<open>
  The whole session machine of theory Session_Runs against an abstract machine that
  forgets how the cache is stored. An abstract session holds the logged-in user id, the
  set of users the cache knows, the connections list cached per user and the upstream
  API; its steps are the spec's contract of each event: a cached fetch whose answer
  parses replaces the logged-in user's list when that user is known and changes nothing
  else, an uncached or failing fetch changes nothing, caching a user makes it known with
  no list. \<open>abs_of\<close> maps a concrete session to its abstract view, and every run of
  the concrete machine is simulated step by step by the abstract one. The effect of
  interleaved fetches and API changes is read off the same step lemma.
\<close>

record abs_session =
  a_user :: "int option"
  a_known :: "int set"
  a_conns :: "int \<rightharpoonup> user_connection list"
  a_api :: "string \<Rightarrow> api_error + json"

text \<open>The connections list an API's answer parses to, if it parses.\<close>

definition parse_connections :: "(string \<Rightarrow> api_error + json) \<Rightarrow> user_connection list option" where
  "parse_connections a =
     (case a user_connection_ROUTE of
        Inl e \<Rightarrow> None
      | Inr j \<Rightarrow>
          (case py_iter j of
             Inl e \<Rightarrow> None
           | Inr ps \<Rightarrow> (case py_map UserConnection_init ps of Inl e \<Rightarrow> None | Inr cs \<Rightarrow> Some cs)))"

fun abs_step :: "abs_session \<Rightarrow> session_event \<Rightarrow> abs_session" where
  "abs_step a (FetchConnections cache) =
     (if cache then
        (case parse_connections (a_api a) of
           None \<Rightarrow> a
         | Some cs \<Rightarrow> a\<lparr>a_conns := refresh_spec (a_user a) (a_known a) cs (a_conns a)\<rparr>)
      else a)"
| "abs_step a (ApiChange f) = a\<lparr>a_api := f\<rparr>"
| "abs_step a (Login u) = a\<lparr>a_user := Some u\<rparr>"
| "abs_step a Logout = a\<lparr>a_user := None\<rparr>"
| "abs_step a (CacheUser u) = a\<lparr>a_known := insert u (a_known a), a_conns := (a_conns a)(u := None)\<rparr>"

fun abs_run :: "abs_session \<Rightarrow> session_event list \<Rightarrow> abs_session" where
  "abs_run a [] = a"
| "abs_run a (e # es) = abs_run (abs_step a e) es"

definition abs_of :: "conn_session \<Rightarrow> abs_session" where
  "abs_of s =
     \<lparr>a_user = user_id s, a_known = dom (users_cache s), a_conns = cached_connections s,
      a_api = api s\<rparr>"

section \<open>Lemmas\<close>

lemma base_fetch_parse_Inr:
  "DiscordModelsBase_fetch_from_api UserConnection_init True user_connection_ROUTE s = Inr r \<longleftrightarrow>
   (\<exists>cs. parse_connections (api s) = Some cs \<and> r = Many cs)"
  by (auto simp: DiscordModelsBase_fetch_from_api_def discord_request_def parse_connections_def
      split: sum.splits)

lemma base_fetch_parse_None:
  "parse_connections (api s) = None \<Longrightarrow>
   \<exists>e. DiscordModelsBase_fetch_from_api UserConnection_init True user_connection_ROUTE s = Inl e"
  using base_fetch_parse_Inr [of s] by (cases "DiscordModelsBase_fetch_from_api UserConnection_init
      True user_connection_ROUTE s") auto

lemma fetch_abs:
  "abs_of (snd (UserConnection_fetch_from_api cache s)) = abs_step (abs_of s) (FetchConnections cache)"
proof (cases "parse_connections (api s)")
  case None
  then obtain e where "DiscordModelsBase_fetch_from_api UserConnection_init True
      user_connection_ROUTE s = Inl e" using base_fetch_parse_None by blast
  then show ?thesis using None by (simp add: fetch_base_Inl abs_of_def)
next
  case (Some cs)
  then have "DiscordModelsBase_fetch_from_api UserConnection_init True user_connection_ROUTE s =
      Inr (Many cs)" by (simp add: base_fetch_parse_Inr)
  then show ?thesis using Some
    by (auto simp: fetch_base_Inr update_users_cache_eq abs_of_def refresh_spec_def
        cached_connections_def fun_eq_iff split: option.split)
qed

lemma session_step_abs: "abs_of (session_step s e) = abs_step (abs_of s) e"
proof (cases e)
  case (FetchConnections cache)
  then show ?thesis by (simp add: fetch_abs)
qed (auto simp: abs_of_def cache_user_def cached_connections_def fun_eq_iff)

lemma example_session_parse: "parse_connections (api example_session) = Some [example_connection]"
  by (simp add: parse_connections_def example_session_def)

section \<open>Simulation of the session machine\<close>

text \<open>C24. Refinement of whole runs: for every session and every run of events, the
  abstract view of the session the run reaches is the state the abstract machine reaches
  from the abstract view of the start by the same events. The cache entries, their user
  objects and what the constructor does inside a fetch are invisible to a caller that
  observes the cached lists, the known users, the login and the API.\<close>

theorem run_refines_abstract: "abs_of (session_run s es) = abs_run (abs_of s) es"
  by (induction es arbitrary: s) (simp_all add: session_step_abs)

section \<open>Interleaving of fetches and API changes\<close>

text \<open>C25. Interleaving: after a cached fetch, a change of the upstream data and a second
  cached fetch by a logged-in, cached user, the user's cached list is the second answer
  when it parses (the last fetch wins) and is still the first one when it does not (a
  failing fetch keeps the stale list; nothing invalidates it).\<close>

theorem fetch_api_change_fetch:
  assumes "user_id s = Some u" and "u \<in> dom (users_cache s)"
    and "parse_connections (api s) = Some cs1"
  shows "cached_connections (session_run s [FetchConnections True, ApiChange a, FetchConnections True]) u =
           (case parse_connections a of Some cs2 \<Rightarrow> Some cs2 | None \<Rightarrow> Some cs1)"
proof -
  let ?es = "[FetchConnections True, ApiChange a, FetchConnections True]"
  have run: "abs_of (session_run s ?es) =
        abs_step (abs_step (abs_step (abs_of s) (FetchConnections True)) (ApiChange a))
          (FetchConnections True)"
    by (simp only: session_run.simps session_step_abs)
  have view: "cached_connections (session_run s ?es) = a_conns (abs_of (session_run s ?es))"
    by (simp add: abs_of_def)
  have "a_conns (abs_step (abs_step (abs_step (abs_of s) (FetchConnections True)) (ApiChange a))
          (FetchConnections True)) u =
        (case parse_connections a of Some cs2 \<Rightarrow> Some cs2 | None \<Rightarrow> Some cs1)"
    using assms by (simp add: abs_of_def refresh_spec_def split: option.split)
  then show ?thesis unfolding view run .
qed

theorem fetch_api_change_fetch_witness:
  "cached_connections (session_run example_session
      [FetchConnections True, ApiChange (\<lambda>route. Inl RateLimited), FetchConnections True]) 7 =
   Some [example_connection]"
proof -
  have h1: "user_id example_session = Some 7" and h2: "7 \<in> dom (users_cache example_session)"
    by (simp_all add: example_session_def)
  have "parse_connections (\<lambda>route. Inl RateLimited) = None"
    by (simp add: parse_connections_def)
  then show ?thesis
    using fetch_api_change_fetch [OF h1 h2 example_session_parse, of "\<lambda>route. Inl RateLimited"]
    by simp
qed

end
