(* ===== verification/Schema.thy ===== *)
theory Schema
  imports Connections
begin

text \<open>
  The types of a connection's attributes. The class docstring of \<open>UserConnection\<close>
  (lines 10-34) documents them: \<open>id\<close>, \<open>name\<close> and \<open>type\<close> are strings,
  \<open>revoked\<close>, \<open>verified\<close>, \<open>friend_sync\<close>, \<open>show_activity\<close> and
  \<open>two_way_link\<close> booleans, \<open>visibility\<close> an integer, \<open>integrations\<close> a list.
  The constructor checks none of them: it copies what the payload holds. So the typing
  of a connection is a property of its payload, in both directions: a payload in the
  shape of the upstream schema always constructs (progress) a connection of the
  documented types (preservation), and a constructed connection is well typed exactly
  when its payload's attributes were. Every attribute but \<open>id\<close> may also be None, the
  value of an absent key.
\<close>

datatype json_type = TStr | TBool | TInt | TList

fun has_type :: "json \<Rightarrow> json_type \<Rightarrow> bool" where
  "has_type (JStr s) TStr = True"
| "has_type (JBool b) TBool = True"
| "has_type (JInt n) TInt = True"
| "has_type (JList xs) TList = True"
| "has_type v t = False"

definition opt_typed :: "json \<Rightarrow> json_type \<Rightarrow> bool" where
  "opt_typed v t \<longleftrightarrow> v = JNull \<or> has_type v t"

definition conn_well_typed :: "user_connection \<Rightarrow> bool" where
  "conn_well_typed c \<longleftrightarrow>
     has_type (conn_id c) TStr \<and> opt_typed (conn_name c) TStr \<and> opt_typed (conn_type c) TStr \<and>
     opt_typed (conn_revoked c) TBool \<and> opt_typed (conn_verified c) TBool \<and>
     opt_typed (conn_friend_sync c) TBool \<and> opt_typed (conn_show_activity c) TBool \<and>
     opt_typed (conn_visibility c) TInt \<and> opt_typed (conn_two_way_link c) TBool"

text \<open>The same typing read off a payload dict, attribute by attribute.\<close>

definition payload_attrs_typed :: "(string \<times> json) list \<Rightarrow> bool" where
  "payload_attrs_typed d \<longleftrightarrow>
     has_type (dict_get d ''id'' JNull) TStr \<and> opt_typed (dict_get d ''name'' JNull) TStr \<and>
     opt_typed (dict_get d ''type'' JNull) TStr \<and> opt_typed (dict_get d ''revoked'' JNull) TBool \<and>
     opt_typed (dict_get d ''verified'' JNull) TBool \<and>
     opt_typed (dict_get d ''friend_sync'' JNull) TBool \<and>
     opt_typed (dict_get d ''show_activity'' JNull) TBool \<and>
     opt_typed (dict_get d ''visibility'' JNull) TInt \<and>
     opt_typed (dict_get d ''two_way_link'' JNull) TBool"

text \<open>A connection object of the upstream schema (spec, External interfaces): typed
  attributes, and an \<open>integrations\<close> array (or none) of integration objects.\<close>

definition payload_conforms :: "(string \<times> json) list \<Rightarrow> bool" where
  "payload_conforms d \<longleftrightarrow>
     payload_attrs_typed d \<and>
     (case dict_get d ''integrations'' (JList []) of JList xs \<Rightarrow> list_all is_dict xs | _ \<Rightarrow> False)"

section \<open>Lemmas\<close>

lemma has_type_id_present: "has_type (dict_get d ''id'' JNull) TStr \<Longrightarrow> \<exists>v. map_of d ''id'' = Some v"
  by (cases "map_of d ''id''") auto

lemma conforms_init_Inr:
  assumes "payload_conforms d"
  shows "\<exists>c. UserConnection_init (JObj d) = Inr c"
proof -
  from assms have typed: "payload_attrs_typed d"
    and ints: "case dict_get d ''integrations'' (JList []) of JList xs \<Rightarrow> list_all is_dict xs | _ \<Rightarrow> False"
    by (simp_all add: payload_conforms_def)
  obtain v where v: "map_of d ''id'' = Some v"
    using typed has_type_id_present by (auto simp: payload_attrs_typed_def)
  obtain xs where "dict_get d ''integrations'' (JList []) = JList xs" and "list_all is_dict xs"
    using ints by (auto split: json.splits)
  then show ?thesis
    using v by (auto simp: UserConnection_init_id py_map_Integration_init)
qed

lemma init_attrs_typed:
  "UserConnection_init (JObj d) = Inr c \<Longrightarrow> payload_attrs_typed d \<Longrightarrow> conn_well_typed c"
  by (auto simp: UserConnection_init_eq_Inr conn_well_typed_def payload_attrs_typed_def)

lemma conforming_list_init:
  "\<forall>p\<in>set ps. \<exists>d. p = JObj d \<and> payload_conforms d \<Longrightarrow>
   \<exists>cs. list_all2 (\<lambda>p c. UserConnection_init p = Inr c) ps cs \<and> list_all conn_well_typed cs"
proof (induction ps)
  case Nil
  then show ?case by simp
next
  case (Cons p ps)
  then obtain d where p: "p = JObj d" and conf: "payload_conforms d" by auto
  from conforms_init_Inr [OF conf] obtain c where c: "UserConnection_init (JObj d) = Inr c" ..
  have "conn_well_typed c"
    using init_attrs_typed [OF c] conf by (simp add: payload_conforms_def)
  moreover from Cons obtain cs where "list_all2 (\<lambda>p c. UserConnection_init p = Inr c) ps cs"
    and "list_all conn_well_typed cs" by auto
  ultimately show ?case using p c by (intro exI [of _ "c # cs"]) simp
qed

section \<open>Typing of the constructor\<close>

text \<open>C19. Progress and preservation: a payload that conforms to the upstream schema
  always constructs a connection, and its attributes have the documented types (or
  None where the key is absent).\<close>

theorem init_typed_total:
  assumes "payload_conforms d"
  shows "\<exists>c. UserConnection_init (JObj d) = Inr c \<and> conn_well_typed c"
proof -
  from conforms_init_Inr [OF assms] obtain c where c: "UserConnection_init (JObj d) = Inr c" ..
  moreover have "conn_well_typed c"
    using init_attrs_typed [OF c] assms by (simp add: payload_conforms_def)
  ultimately show ?thesis by blast
qed

theorem init_typed_total_witness:
  "\<exists>c. UserConnection_init (JObj [(''id'', JStr ''1''), (''type'', JStr ''twitch''),
          (''verified'', JBool True), (''visibility'', JInt 1),
          (''integrations'', JList [JObj []])]) = Inr c \<and> conn_well_typed c"
  by (rule init_typed_total)
     (simp add: payload_conforms_def payload_attrs_typed_def opt_typed_def)

text \<open>C20. The constructor does not check the documented types: a constructed
  connection is well typed exactly when its payload's attributes are, so an integer id or
  a string visibility reaches the object unchanged.\<close>

theorem init_types_unchecked:
  "UserConnection_init (JObj d) = Inr c \<Longrightarrow> conn_well_typed c \<longleftrightarrow> payload_attrs_typed d"
  by (auto simp: UserConnection_init_eq_Inr conn_well_typed_def payload_attrs_typed_def)

theorem init_types_unchecked_witness:
  "\<exists>c. UserConnection_init (JObj [(''id'', JInt 5)]) = Inr c \<and> \<not> conn_well_typed c"
proof -
  obtain c where c: "UserConnection_init (JObj [(''id'', JInt 5)]) = Inr c"
    by (simp add: UserConnection_init_def)
  have "conn_well_typed c \<longleftrightarrow> payload_attrs_typed [(''id'', JInt 5)]"
    by (rule init_types_unchecked [OF c])
  then show ?thesis using c by (auto simp: payload_attrs_typed_def)
qed

section \<open>Typing of a fetch\<close>

text \<open>C27. Progress and preservation for the whole fetch: when the API answers with an
  array of connection objects of the upstream schema, fetch_from_api (with or without
  caching) returns one connection per object, each of the documented attribute
  types.\<close>

theorem fetch_typed_total:
  assumes "api s user_connection_ROUTE = Inr (JList ps)"
    and "\<forall>p\<in>set ps. \<exists>d. p = JObj d \<and> payload_conforms d"
  shows "\<exists>cs. fst (UserConnection_fetch_from_api cache s) = Inr (Many cs) \<and>
              length cs = length ps \<and> list_all conn_well_typed cs"
proof -
  from conforming_list_init [OF assms(2)] obtain cs
    where all: "list_all2 (\<lambda>p c. UserConnection_init p = Inr c) ps cs"
      and typed: "list_all conn_well_typed cs" by blast
  have "fst (UserConnection_fetch_from_api cache s) = Inr (Many cs)"
    using assms(1) all by (auto simp: fetch_fst_Inr base_fetch_many_eq_Inr)
  with all typed show ?thesis by (auto dest: list_all2_lengthD)
qed

theorem fetch_typed_total_witness:
  "\<exists>cs. fst (UserConnection_fetch_from_api True example_session) = Inr (Many cs) \<and>
        length cs = length [example_payload] \<and> list_all conn_well_typed cs"
  by (rule fetch_typed_total)
     (simp_all add: example_session_def example_payload_def payload_conforms_def
        payload_attrs_typed_def opt_typed_def)

end
