(* ===== verification/Spec2Isabelle.thy ===== *)
theory Spec2Isabelle
  imports Session_Refinement Schema
begin

text \<open>
  \<^bold>\<open>A verification model of flask-discord's connection model.\<close>

  \<^bold>\<open>The program.\<close> The verified source is
  \<open>src/flask_discord/models/connections.py\<close>, class \<open>UserConnection\<close>, a
  subclass of \<open>DiscordModelsBase\<close>. Its constructor reads a JSON payload (a dict) into
  attributes: \<open>id\<close> by subscription (KeyError when absent), the others by
  \<open>payload.get(...)\<close> (None when absent), and \<open>integrations\<close> as one
  \<open>Integration\<close> per element of \<open>payload.get("integrations", list())\<close>. The
  property \<open>is_visible\<close> is \<open>bool(visibility)\<close>. The class method
  \<open>fetch_from_api(cache=True)\<close> calls the base class's fetch (one GET of
  \<open>/users/@me/connections\<close>, one instance per element of the JSON array since
  \<open>MANY = True\<close>), and, when \<open>cache\<close> is set, assigns the list to the
  \<open>connections\<close> attribute of the user that the process-wide users cache holds for the
  logged-in user id, swallowing the AttributeError raised when there is none.

  \<^bold>\<open>Theories.\<close>
  \<^item> \<open>Prelude\<close>: Python exceptions (\<open>py_error\<close>), results \<open>py_error + 'a\<close> and
    their sequencing \<open>res_bind\<close>, the list comprehension \<open>py_map\<close>, the
    \<open>try/except AttributeError\<close> block \<open>py_except_attribute\<close>; the collection
    \<open>py_simps\<close>.
  \<^item> \<open>Py_Json\<close>: JSON values as \<open>json.loads\<close> returns them and the built-ins
    the code applies to them (\<open>d[k]\<close>, \<open>d.get\<close>, iteration, \<open>bool\<close>),
    raising what CPython raises on a value of the wrong type.
  \<^item> \<open>Integration\<close> and \<open>Models_Base\<close>: the collaborators whose code is not among
    the verified sources, modelled from the spec: the nested \<open>Integration\<close> model,
    the session (\<open>user_id\<close>, \<open>users_cache\<close>, the upstream API as a response
    function), cached users with their \<open>connections\<close> attribute, and
    \<open>DiscordModelsBase.fetch_from_api\<close>.
  \<^item> \<open>Connections\<close>: \<open>UserConnection\<close> itself. The record
    \<open>user_connection\<close> holds the instance attributes (and \<open>_payload\<close>);
    \<open>UserConnection_init\<close> is \<open>__init__\<close>, one \<open>res_bind\<close> per statement in
    the source's order; \<open>get_integrations\<close> is \<open>__get_integrations\<close>;
    \<open>is_visible\<close> the property; \<open>set_cached_connections\<close> and
    \<open>update_users_cache\<close> the cache lookup, assignment and try/except (lines 83-87);
    \<open>UserConnection_fetch_from_api\<close> the class method, a function from the session
    to the result and the new session. \<open>wf_user_connection\<close> (a connection is what
    the constructor builds from its own payload) is used by the cache invariant.
  \<^item> \<open>Session_Runs\<close>: the connection model inside a running application. Events
    (\<open>session_event\<close>: cached or uncached fetch, API change, login, logout, another
    model caching a user) are applied by \<open>session_step\<close>, runs by
    \<open>session_run\<close>. \<open>conn_session_inv\<close> is the cache invariant,
    \<open>cached_connections\<close> the view of a session as connections lists per user and
    \<open>refresh_spec\<close> the abstract contract of a cached fetch on that view.
  \<^item> \<open>Session_Refinement\<close>: an abstract session machine (\<open>abs_session\<close>: login,
    known users, connections lists per user, API; \<open>abs_step\<close>, \<open>abs_run\<close>) whose
    steps are the spec's contract of each event, with \<open>parse_connections\<close> the list an
    API answer parses to, and the abstraction \<open>abs_of\<close> of a concrete session.
  \<^item> \<open>Schema\<close>: the attribute types the class docstring documents (lines 10-34) as
    \<open>conn_well_typed\<close>, the same typing read off a payload
    (\<open>payload_attrs_typed\<close>) and the upstream connection object
    (\<open>payload_conforms\<close>, from the spec's field list).

  \<^bold>\<open>What is shown.\<close>
  \<^item> fetch_from_api (Connections): the exact condition of success, with one
    connection per array element in order (C1, C2); the effect on the users cache when
    the user is cached (C3), is not (C4) and when caching is off (C5); failures leave the
    session unchanged (C6); request errors propagate unmodified (C7); the first malformed
    element decides the exception (C13); a cached fetch is idempotent (C18); its result
    depends only on the API's answer for its route, not on the cache flag, the login or
    the cache (C21); a JSON object answer gives an empty list or TypeError (C22).
  \<^item> The constructor (Connections): KeyError('id') exactly for a dict without id (C8);
    defaults of the optional attributes (C9); integrations one per element, in order
    (C10); a null integrations value raises TypeError (C11) and a non-dict element
    AttributeError (C17); __get_integrations on every kind of JSON value (C26);
    is_visible on integer, null and absent visibility (C12) and its truthiness on strings
    (C16).
  \<^item> Runs (Session_Runs): the cache invariant is kept by every run (C14); the cache
    domain over a run is exactly the initial one plus the users other code caches, so a
    fetch never creates or evicts an entry (C15); the order of login and a cached fetch
    decides whether anything is cached (C23).
  \<^item> Simulation (Session_Refinement): every run of the concrete machine is simulated by
    the abstract machine on the abstract view (C24, proved step by step); a fetch, an API
    change and a second fetch leave the second list cached, or the stale first one when
    the second fetch fails (C25).
  \<^item> Types (Schema): a schema-conforming payload always constructs a connection of the
    documented attribute types (C19, progress and preservation); the constructor checks
    no type, so a connection is well typed exactly when its payload is (C20); an API
    answer of conforming objects always fetches, one well-typed connection per object
    (C27).

  \<^bold>\<open>Findings.\<close> The spec's general model contract ("never throwing on absence")
  does not hold for \<open>id\<close> (C8); a null \<open>integrations\<close> raises TypeError instead
  of defaulting (C11); \<open>is_visible\<close> is truthiness, so the string "0" is visible,
  not "iff non-zero integer" (C16); the docstring of \<open>fetch_from_api\<close> speaks of
  \<open>User.guilds\<close> where the code updates \<open>User.connections\<close>; the documented
  attribute types are not enforced and are Optional in fact (C20); a JSON object answer
  is not rejected but iterated by keys (C22); a failing fetch leaves the previously
  cached list in place, which the spec does not address (C25).

  \<^bold>\<open>Not modelled.\<close> The HTTP transport, OAuth2 token handling and Flask request
  context: the upstream API is a function from route to response in the session state.
  JSON numbers are modelled as integers (the connection schema has no floats). The
  session is single-threaded, as the spec assumes, so operations are sequential steps.
  The only loops are the list comprehensions over finite lists, modelled by structural
  recursion (\<open>py_map\<close>), so termination needs no separate argument. There is no
  machine arithmetic (Python ints are \<open>int\<close>), hence no overflow bound. The users
  cache is never evicted; C15 gives its exact domain over a run.

  The collaborators (Integration, DiscordModelsBase, the session and User) are not among
  the verified sources and are modelled only as far as the spec describes them:
  \<open>Integration\<close>'s individual attributes, the \<open>BOT\<close> request variant of the base
  fetch and the \<open>User\<close> model's other attributes are left out, since the spec gives no
  behaviour for them. The \<open>User\<close> record has only its id and \<open>connections\<close>,
  so object identity and a cached object that rejects the assignment (the other source of
  the swallowed AttributeError) are not expressed. The import lines of \<open>connections.py\<close> correspond to the theory
  imports and are not mapped.
\<close>

end
